theory Spec2Isabelle
  imports Main
begin

section \<open>The crash reporter API of shell/browser/api/electron\_api\_crash\_reporter.cc\<close>

text \<open>
  The file keeps two process-wide variables (the flag \<open>g_crash_reporter_initialized\<close> and
  the table behind \<open>GetGlobalCrashKeysMutable\<close>) and forwards everything else to
  collaborators: the consent store of \<open>ElectronCrashReporterClient\<close>, the crash keys of
  \<open>electron::crash_keys\<close>, the two backends (\<open>crash_reporter::InitializeCrashpad\<close> and
  \<open>breakpad::\<close>) and an \<open>UploadList\<close>. The model passes the process state explicitly and
  records every mutating call on a collaborator and every write to the global table, in
  program order.
\<close>

subsection \<open>Data\<close>

text \<open>
  A \<open>std::map<std::string, std::string>\<close> argument is the list of its entries in the order
  a range-for visits them. A \<open>std::map\<close> holds one entry per key.
\<close>

type_synonym std_map = "(string \<times> string) list"

definition std_map_ok :: "std_map \<Rightarrow> bool" where
  "std_map_ok m = distinct (map fst m)"

text \<open>The build target, which decides the preprocessor branches.\<close>

datatype target_os = OS_MACOSX | OS_WIN | OS_LINUX | OS_OTHER

text \<open>\<open>UploadList::UploadInfo\<close>: the two members the file reads.\<close>

record UploadInfo =
  upload_time :: int
  upload_id :: string

text \<open>The two readers \<open>CreateCrashUploadList\<close> can construct; the text-log reader holds its path.\<close>

datatype upload_list = CrashUploadListCrashpad | TextLogUploadList string

text \<open>The values handed to the script: a date, a string, and an object as its properties in
  the order they were set.\<close>

datatype v8_value = V8_Date int | V8_String string

type_synonym v8_object = "(string \<times> v8_value) list"

text \<open>
  What the file reads from its surroundings and never writes. The constants
  \<open>switches::kProcessType\<close> and \<open>CrashUploadList::kReporterLogFilename\<close>, the command-line
  lookup, the path service and \<open>FilePath::AppendASCII\<close> are declared outside the file, so
  they are parameters here. \<open>PathService_Get_DIR_CRASH_DUMPS\<close> is the outcome of
  \<open>base::PathService::Get(chrome::DIR_CRASH_DUMPS, &crash_dir_path)\<close>: \<open>Some p\<close> when the
  lookup fills the path in, \<open>None\<close> when it fails and leaves the path as constructed (empty).
  \<open>stored_uploads\<close> is the backing store a reader loads from: \<open>None\<close> when it is missing.
\<close>

record env =
  target :: target_os
  IsCrashpadEnabled :: bool
  kProcessType :: string
  GetSwitchValueASCII :: "string \<Rightarrow> string"
  PathService_Get_DIR_CRASH_DUMPS :: "string option"
  AppendASCII :: "string \<Rightarrow> string \<Rightarrow> string"
  kReporterLogFilename :: string
  stored_uploads :: "upload_list \<Rightarrow> UploadInfo list option"

text \<open>The effects of the file, as they are recorded in program order: the mutating calls
  it makes on its collaborators, and its writes \<open>global_crash_keys[key] = value\<close> to the
  global key table.\<close>

datatype effect =
    Call_SetCollectStatsConsent bool
  | Call_InitializeCrashpad bool string
  | Call_SetUploadURL string
  | Call_SetCrashKey string string
  | Call_ClearCrashKey string
  | Call_InitCrashReporter string
  | Write_global_crash_keys string string

text \<open>
  The process state: the file's two variables, the consent flag and the crash-key table of
  the collaborators, the effects so far (\<open>calls\<close>), and the arguments of the script
  callbacks run.
\<close>

record process_state =
  g_crash_reporter_initialized :: bool
  global_crash_keys :: "string \<rightharpoonup> string"
  collect_stats_consent :: bool
  crash_keys :: "string \<rightharpoonup> string"
  calls :: "effect list"
  callback_runs :: "v8_object list list"

text \<open>At process start the flag is \<open>false\<close> and the static table is empty.\<close>

definition initial_state :: process_state where
  "initial_state =
     \<lparr>g_crash_reporter_initialized = False, global_crash_keys = Map.empty,
      collect_stats_consent = False, crash_keys = Map.empty, calls = [],
      callback_runs = []\<rparr>"

subsection \<open>Collaborators\<close>

definition record_call :: "effect \<Rightarrow> process_state \<Rightarrow> process_state" where
  "record_call c s = s\<lparr>calls := calls s @ [c]\<rparr>"

text \<open>Modelled from the spec: the consent store of \<open>ElectronCrashReporterClient\<close>
  (shell/app/electron\_crash\_reporter\_client.cc is not among the sources). The spec gives
  \<open>SetConsent(bool)\<close> and \<open>GetConsent() -> bool\<close> over a single boolean whose read returns the
  value set last.\<close>

definition SetCollectStatsConsent :: "bool \<Rightarrow> process_state \<Rightarrow> process_state" where
  "SetCollectStatsConsent upload s =
     record_call (Call_SetCollectStatsConsent upload) (s\<lparr>collect_stats_consent := upload\<rparr>)"

definition GetCollectStatsConsent :: "process_state \<Rightarrow> bool" where
  "GetCollectStatsConsent s = collect_stats_consent s"

text \<open>Modelled from the spec: \<open>electron::crash_keys::SetCrashKey\<close> and \<open>ClearCrashKey\<close>
  (shell/common/crash\_keys.cc is not among the sources). The spec gives a mapping from name
  to value with unique keys, in which a later set overwrites, and a removal that is a no-op
  on an absent key.\<close>

definition SetCrashKey :: "string \<Rightarrow> string \<Rightarrow> process_state \<Rightarrow> process_state" where
  "SetCrashKey key val s =
     record_call (Call_SetCrashKey key val) (s\<lparr>crash_keys := (crash_keys s)(key \<mapsto> val)\<rparr>)"

definition ClearCrashKey :: "string \<Rightarrow> process_state \<Rightarrow> process_state" where
  "ClearCrashKey key s =
     record_call (Call_ClearCrashKey key) (s\<lparr>crash_keys := (crash_keys s)(key := None)\<rparr>)"

text \<open>Modelled from the spec: the backend capability \<open>InitializeStructuredBackend(isEmbedderProcess,
  processRole)\<close>, \<open>SetLegacySubmitURL(url)\<close> and \<open>InitializeLegacyBackend(processRole)\<close>, that is
  \<open>crash_reporter::InitializeCrashpad\<close>, \<open>breakpad::SetUploadURL\<close> and
  \<open>breakpad::InitCrashReporter\<close>. They return nothing to the file and act outside it, so the
  model keeps the call and its arguments.\<close>

definition InitializeCrashpad :: "bool \<Rightarrow> string \<Rightarrow> process_state \<Rightarrow> process_state" where
  "InitializeCrashpad initial_client process_type s =
     record_call (Call_InitializeCrashpad initial_client process_type) s"

definition SetUploadURL :: "string \<Rightarrow> process_state \<Rightarrow> process_state" where
  "SetUploadURL url s = record_call (Call_SetUploadURL url) s"

definition InitCrashReporter :: "string \<Rightarrow> process_state \<Rightarrow> process_state" where
  "InitCrashReporter process_type s = record_call (Call_InitCrashReporter process_type) s"

text \<open>Modelled from the spec: the upload list capability \<open>LoadAsync(onDone)\<close> and
  \<open>GetEntries(maxCount)\<close>, that is \<open>UploadList::Load\<close> and \<open>UploadList::GetUploads\<close>. A load
  completes by running its closure, over the entries of the store, and over no entries when
  the store cannot be loaded; \<open>GetUploads\<close> reads up to \<open>max_count\<close> of the loaded entries.
  The closure runs later, on another task: the model keeps its effect, not the delay.\<close>

definition Load :: "env \<Rightarrow> upload_list \<Rightarrow> (UploadInfo list \<Rightarrow> 'w \<Rightarrow> 'w) \<Rightarrow> 'w \<Rightarrow> 'w" where
  "Load e list callback w =
     callback (case stored_uploads e list of None \<Rightarrow> [] | Some uploads \<Rightarrow> uploads) w"

definition GetUploads :: "nat \<Rightarrow> UploadInfo list \<Rightarrow> UploadInfo list" where
  "GetUploads max_count uploads = take max_count uploads"

subsection \<open>The functions of the file\<close>

definition IsCrashReporterEnabled :: "process_state \<Rightarrow> bool" where
  "IsCrashReporterEnabled s = g_crash_reporter_initialized s"

definition GetGlobalCrashKeys :: "process_state \<Rightarrow> (string \<rightharpoonup> string)" where
  "GetGlobalCrashKeys s = global_crash_keys s"

definition CreateCrashUploadList :: "env \<Rightarrow> upload_list" where
  "CreateCrashUploadList e =
     (if target e = OS_MACOSX \<or> target e = OS_WIN then CrashUploadListCrashpad
      else if IsCrashpadEnabled e then CrashUploadListCrashpad
      else
        let crash_dir_path =
              (case PathService_Get_DIR_CRASH_DUMPS e of None \<Rightarrow> [] | Some p \<Rightarrow> p);
            upload_log_path = AppendASCII e crash_dir_path (kReporterLogFilename e)
        in TextLogUploadList upload_log_path)"

definition GetUploadedReports :: "env \<Rightarrow> (v8_object list \<Rightarrow> 'w \<Rightarrow> 'w) \<Rightarrow> 'w \<Rightarrow> 'w" where
  "GetUploadedReports e callback =
     (let list = CreateCrashUploadList e
      in Load e list
           (\<lambda>loaded.
              let uploads = GetUploads 100 loaded;
                  result =
                    map (\<lambda>upload. [(''date'', V8_Date (upload_time upload)),
                                    (''id'', V8_String (upload_id upload))])
                      uploads
              in callback result))"

definition SetCrashKeysFromMap :: "std_map \<Rightarrow> process_state \<Rightarrow> process_state" where
  "SetCrashKeysFromMap extra s = fold (\<lambda>pair. SetCrashKey (fst pair) (snd pair)) extra s"

definition SetUploadToServer :: "bool \<Rightarrow> process_state \<Rightarrow> process_state" where
  "SetUploadToServer upload s = SetCollectStatsConsent upload s"

definition GetUploadToServer :: "process_state \<Rightarrow> bool" where
  "GetUploadToServer s = GetCollectStatsConsent s"

definition Start ::
  "env \<Rightarrow> string \<Rightarrow> string \<Rightarrow> bool \<Rightarrow> bool \<Rightarrow> bool \<Rightarrow> bool \<Rightarrow> std_map \<Rightarrow> std_map
     \<Rightarrow> process_state \<Rightarrow> process_state" where
  "Start e submit_url crashes_directory upload_to_server ignore_system_crash_handler
     rate_limit compress extra_global extra s =
     (if g_crash_reporter_initialized s then s
      else
        let s1 = s\<lparr>g_crash_reporter_initialized := True\<rparr>;
            s2 = SetUploadToServer upload_to_server s1;
            process_type = GetSwitchValueASCII e (kProcessType e)
        in if IsCrashpadEnabled e
           then InitializeCrashpad (process_type = []) process_type s2
           else
             let s3 = SetUploadURL submit_url s2;
                 s4 = fold (\<lambda>pair t.
                             record_call (Write_global_crash_keys (fst pair) (snd pair))
                               (t\<lparr>global_crash_keys :=
                                    (global_crash_keys t)(fst pair \<mapsto> snd pair)\<rparr>))
                        extra_global s3;
                 s5 = SetCrashKeysFromMap extra s4;
                 s6 = SetCrashKeysFromMap extra_global s5
             in InitCrashReporter process_type s6)"

text \<open>
  The methods \<open>Initialize\<close> registers on the exports object, under their script names, and
  the function each name is bound to. \<open>getUploadedReports\<close> takes a script callback; in a
  run of the process its invocation is kept in \<open>callback_runs\<close>.
\<close>

datatype api_call =
    start string string bool bool bool bool std_map std_map
  | addExtraParameter string string
  | removeExtraParameter string
  | getUploadedReports
  | setUploadToServer bool
  | getUploadToServer

fun Initialize :: "env \<Rightarrow> api_call \<Rightarrow> process_state \<Rightarrow> process_state" where
  "Initialize e (start submit_url crashes_directory upload_to_server
       ignore_system_crash_handler rate_limit compress extra_global extra) s =
     Start e submit_url crashes_directory upload_to_server ignore_system_crash_handler
       rate_limit compress extra_global extra s"
| "Initialize e (addExtraParameter key val) s = SetCrashKey key val s"
| "Initialize e (removeExtraParameter key) s = ClearCrashKey key s"
| "Initialize e getUploadedReports s =
     GetUploadedReports e (\<lambda>result w. w\<lparr>callback_runs := callback_runs w @ [result]\<rparr>) s"
| "Initialize e (setUploadToServer upload) s = SetUploadToServer upload s"
| "Initialize e getUploadToServer s = s"

text \<open>The process after a sequence of calls from the script.\<close>

definition run_calls :: "env \<Rightarrow> api_call list \<Rightarrow> process_state \<Rightarrow> process_state" where
  "run_calls e cs s = fold (Initialize e) cs s"

fun is_start :: "api_call \<Rightarrow> bool" where
  "is_start (start _ _ _ _ _ _ _ _) = True"
| "is_start _ = False"

fun is_setUploadToServer :: "api_call \<Rightarrow> bool" where
  "is_setUploadToServer (setUploadToServer _) = True"
| "is_setUploadToServer _ = False"

text \<open>The arguments of the \<open>InitializeCrashpad\<close> calls among the calls made.\<close>

fun InitializeCrashpad_arguments :: "effect list \<Rightarrow> (bool \<times> string) list" where
  "InitializeCrashpad_arguments [] = []"
| "InitializeCrashpad_arguments (Call_InitializeCrashpad initial_client process_type # cs) =
     (initial_client, process_type) # InitializeCrashpad_arguments cs"
| "InitializeCrashpad_arguments (_ # cs) = InitializeCrashpad_arguments cs"

subsection \<open>Two example processes\<close>

text \<open>
  A Linux renderer process on the legacy backend, whose text log holds two uploads, and a
  Linux browser process (no \<open>--type\<close> switch) on the structured backend, whose store is
  missing.
\<close>

definition example_uploads :: "UploadInfo list" where
  "example_uploads =
     [\<lparr>upload_time = 1600000000, upload_id = ''a1b2''\<rparr>,
      \<lparr>upload_time = 1600000100, upload_id = ''c3d4''\<rparr>]"

definition breakpad_env :: env where
  "breakpad_env =
     \<lparr>target = OS_LINUX, IsCrashpadEnabled = False, kProcessType = ''type'',
      GetSwitchValueASCII = (\<lambda>switch. if switch = ''type'' then ''renderer'' else []),
      PathService_Get_DIR_CRASH_DUMPS = Some ''/tmp/crashes'',
      AppendASCII = (\<lambda>dir component. dir @ ''/'' @ component),
      kReporterLogFilename = ''uploads.log'',
      stored_uploads = (\<lambda>list. if list = TextLogUploadList ''/tmp/crashes/uploads.log''
                                 then Some example_uploads else None)\<rparr>"

definition crashpad_env :: env where
  "crashpad_env =
     \<lparr>target = OS_LINUX, IsCrashpadEnabled = True, kProcessType = ''type'',
      GetSwitchValueASCII = (\<lambda>switch. []),
      PathService_Get_DIR_CRASH_DUMPS = None,
      AppendASCII = (\<lambda>dir component. dir @ ''/'' @ component),
      kReporterLogFilename = ''uploads.log'',
      stored_uploads = (\<lambda>list. None)\<rparr>"


section \<open>Auxiliary facts\<close>

lemma Start_initialized: "g_crash_reporter_initialized s \<Longrightarrow>
  Start e u d up i r c eg ex s = s"
  by (simp add: Start_def)

lemma fold_upsert:
  "distinct (map fst m) \<Longrightarrow> fold (\<lambda>pair table. table(fst pair \<mapsto> snd pair)) m t = t ++ map_of m"
proof (induction m arbitrary: t)
  case Nil
  then show ?case by simp
next
  case (Cons p m)
  let ?f = "\<lambda>pair table. table(fst pair \<mapsto> snd pair)"
  obtain k v where p: "p = (k, v)" by (cases p)
  from Cons.prems p have fresh: "k \<notin> dom (map_of m)"
    by (simp add: dom_map_of_conv_image_fst)
  from Cons.prems have "distinct (map fst m)" by simp
  then have IH: "fold ?f m (t(k \<mapsto> v)) = t(k \<mapsto> v) ++ map_of m"
    by (rule Cons.IH)
  have "fold ?f (p # m) t = fold ?f m (t(k \<mapsto> v))"
    by (simp only: fold_Cons o_apply p fst_conv snd_conv)
  also have "\<dots> = t(k \<mapsto> v) ++ map_of m" by (rule IH)
  also have "\<dots> = (t ++ map_of m)(k \<mapsto> v)"
    using fresh by (rule map_add_upd_left)
  also have "\<dots> = t ++ (map_of m)(k \<mapsto> v)"
    by (simp only: map_add_upd)
  also have "(map_of m)(k \<mapsto> v) = map_of (p # m)"
    by (simp only: p map_of.simps fst_conv snd_conv)
  finally show ?case .
qed

lemma SetCrashKeysFromMap_state:
  "SetCrashKeysFromMap m s =
     s\<lparr>crash_keys := fold (\<lambda>pair table. table(fst pair \<mapsto> snd pair)) m (crash_keys s),
       calls := calls s @ map (\<lambda>pair. Call_SetCrashKey (fst pair) (snd pair)) m\<rparr>"
  unfolding SetCrashKeysFromMap_def
  by (induction m arbitrary: s) (simp_all add: SetCrashKey_def record_call_def)

lemma write_global_crash_keys_state:
  "fold (\<lambda>pair t. t\<lparr>global_crash_keys := (global_crash_keys t)(fst pair \<mapsto> snd pair),
                     calls := calls t @ [Write_global_crash_keys (fst pair) (snd pair)]\<rparr>) m s =
     s\<lparr>global_crash_keys :=
         fold (\<lambda>pair table. table(fst pair \<mapsto> snd pair)) m (global_crash_keys s),
       calls := calls s @ map (\<lambda>pair. Write_global_crash_keys (fst pair) (snd pair)) m\<rparr>"
  by (induction m arbitrary: s) simp_all

lemma Start_legacy_state:
  "\<not> g_crash_reporter_initialized s \<Longrightarrow> \<not> IsCrashpadEnabled e \<Longrightarrow>
   Start e u d up i r c eg ex s =
     s\<lparr>g_crash_reporter_initialized := True,
       global_crash_keys :=
         fold (\<lambda>pair table. table(fst pair \<mapsto> snd pair)) eg (global_crash_keys s),
       collect_stats_consent := up,
       crash_keys :=
         fold (\<lambda>pair table. table(fst pair \<mapsto> snd pair)) eg
           (fold (\<lambda>pair table. table(fst pair \<mapsto> snd pair)) ex (crash_keys s)),
       calls :=
         calls s @ [Call_SetCollectStatsConsent up, Call_SetUploadURL u]
           @ map (\<lambda>pair. Write_global_crash_keys (fst pair) (snd pair)) eg
           @ map (\<lambda>pair. Call_SetCrashKey (fst pair) (snd pair)) ex
           @ map (\<lambda>pair. Call_SetCrashKey (fst pair) (snd pair)) eg
           @ [Call_InitCrashReporter (GetSwitchValueASCII e (kProcessType e))]\<rparr>"
  by (simp add: Start_def Let_def SetUploadToServer_def SetCollectStatsConsent_def record_call_def
      SetUploadURL_def InitCrashReporter_def SetCrashKeysFromMap_state
      write_global_crash_keys_state)

lemma Start_flag: "g_crash_reporter_initialized (Start e u d up i r c eg ex s)"
  by (simp add: Start_def Let_def SetUploadToServer_def SetCollectStatsConsent_def record_call_def
      InitializeCrashpad_def SetUploadURL_def InitCrashReporter_def SetCrashKeysFromMap_state
      write_global_crash_keys_state)

lemma Initialize_flag: "g_crash_reporter_initialized s \<Longrightarrow> g_crash_reporter_initialized (Initialize e c s)"
  by (cases c) (simp_all add: Start_initialized SetCrashKey_def ClearCrashKey_def record_call_def
      GetUploadedReports_def Load_def Let_def SetUploadToServer_def SetCollectStatsConsent_def)

lemma run_calls_flag: "g_crash_reporter_initialized s \<Longrightarrow> g_crash_reporter_initialized (run_calls e cs s)"
  unfolding run_calls_def
  by (induction cs arbitrary: s) (simp_all add: Initialize_flag)


lemma run_calls_drop_starts:
  "g_crash_reporter_initialized s \<Longrightarrow>
   run_calls e cs s = run_calls e (filter (\<lambda>c. \<not> is_start c) cs) s"
  unfolding run_calls_def
proof (induction cs arbitrary: s)
  case Nil
  then show ?case by simp
next
  case (Cons c cs)
  show ?case
  proof (cases "is_start c")
    case True
    then have "Initialize e c s = s"
      using Cons.prems by (cases c) (simp_all add: Start_initialized)
    with True Cons show ?thesis by simp
  next
    case False
    have "g_crash_reporter_initialized (Initialize e c s)"
      using Cons.prems by (rule Initialize_flag)
    with False Cons.IH show ?thesis by simp
  qed
qed

lemma run_calls_not_started:
  "\<not> g_crash_reporter_initialized s \<Longrightarrow> list_all (\<lambda>c. \<not> is_start c) cs \<Longrightarrow>
   \<not> g_crash_reporter_initialized (run_calls e cs s)"
  unfolding run_calls_def
proof (induction cs arbitrary: s)
  case Nil
  then show ?case by simp
next
  case (Cons c cs)
  from Cons.prems have "\<not> g_crash_reporter_initialized (Initialize e c s)"
    by (cases c) (simp_all add: SetCrashKey_def ClearCrashKey_def record_call_def
      GetUploadedReports_def Load_def Let_def SetUploadToServer_def SetCollectStatsConsent_def)
  with Cons show ?case by simp
qed

lemma InitializeCrashpad_arguments_append:
  "InitializeCrashpad_arguments (xs @ ys) =
   InitializeCrashpad_arguments xs @ InitializeCrashpad_arguments ys"
  by (induction xs rule: InitializeCrashpad_arguments.induct) simp_all

lemma Initialize_consent:
  "g_crash_reporter_initialized s \<Longrightarrow> \<not> is_setUploadToServer c \<Longrightarrow>
   collect_stats_consent (Initialize e c s) = collect_stats_consent s"
  by (cases c) (simp_all add: Start_initialized SetCrashKey_def ClearCrashKey_def record_call_def
      GetUploadedReports_def Load_def Let_def)

lemma run_calls_consent:
  "g_crash_reporter_initialized s \<Longrightarrow> list_all (\<lambda>c. \<not> is_setUploadToServer c) cs \<Longrightarrow>
   collect_stats_consent (run_calls e cs s) = collect_stats_consent s"
  unfolding run_calls_def
proof (induction cs arbitrary: s)
  case Nil
  then show ?case by simp
next
  case (Cons c cs)
  from Cons.prems have keep: "collect_stats_consent (Initialize e c s) = collect_stats_consent s"
    by (simp add: Initialize_consent)
  from Cons.prems have "g_crash_reporter_initialized (Initialize e c s)"
    by (simp add: Initialize_flag)
  with Cons keep show ?case by simp
qed

lemma Start_consent:
  "\<not> g_crash_reporter_initialized s \<Longrightarrow>
   collect_stats_consent (Start e u d up i r c eg ex s) = up"
  by (simp add: Start_def Let_def SetUploadToServer_def SetCollectStatsConsent_def record_call_def
      InitializeCrashpad_def SetUploadURL_def InitCrashReporter_def SetCrashKeysFromMap_state
      write_global_crash_keys_state)

lemma Start_calls:
  "\<not> g_crash_reporter_initialized s \<Longrightarrow>
   calls (Start e u d up i r c eg ex s) =
     calls s @ Call_SetCollectStatsConsent up #
       (if IsCrashpadEnabled e
        then [Call_InitializeCrashpad (GetSwitchValueASCII e (kProcessType e) = [])
                (GetSwitchValueASCII e (kProcessType e))]
        else Call_SetUploadURL u
             # map (\<lambda>pair. Write_global_crash_keys (fst pair) (snd pair)) eg
             @ map (\<lambda>pair. Call_SetCrashKey (fst pair) (snd pair)) ex
             @ map (\<lambda>pair. Call_SetCrashKey (fst pair) (snd pair)) eg
             @ [Call_InitCrashReporter (GetSwitchValueASCII e (kProcessType e))])"
  by (simp add: Start_def Let_def SetUploadToServer_def SetCollectStatsConsent_def record_call_def
      InitializeCrashpad_def SetUploadURL_def InitCrashReporter_def SetCrashKeysFromMap_state
      write_global_crash_keys_state)

section \<open>Properties\<close>

text \<open>
  C1. \<open>IsCrashReporterEnabled\<close> is false at process start and after any calls that are not
  \<open>start\<close>; it is true after a \<open>Start\<close> call from any state and after any calls that follow
  it. A \<open>Start\<close> call in a state where it is true returns the state as it is, every field of
  it. So in every sequence of calls, the \<open>start\<close> calls after the first can be deleted
  without changing the resulting process state: only the first call's arguments take effect.
\<close>

theorem Start_only_first_call_takes_effect:
  "\<not> IsCrashReporterEnabled initial_state
   \<and> (list_all (\<lambda>c. \<not> is_start c) before \<longrightarrow>
        \<not> IsCrashReporterEnabled (run_calls e before initial_state))
   \<and> IsCrashReporterEnabled (Start e u d up i r c eg ex s)
   \<and> IsCrashReporterEnabled
        (run_calls e later (Start e u d up i r c eg ex s))
   \<and> (IsCrashReporterEnabled s \<longrightarrow> Start e u d up i r c eg ex s = s)
   \<and> run_calls e (start u d up i r c eg ex # later) s =
       run_calls e (start u d up i r c eg ex # filter (\<lambda>c. \<not> is_start c) later) s"
proof -
  have init: "\<not> g_crash_reporter_initialized initial_state"
    by (simp add: initial_state_def)
  have started: "g_crash_reporter_initialized (Start e u d up i r c eg ex s)"
    by (rule Start_flag)
  have "run_calls e (start u d up i r c eg ex # later) s =
        run_calls e later (Start e u d up i r c eg ex s)"
    by (simp add: run_calls_def)
  also have "\<dots> = run_calls e (filter (\<lambda>c. \<not> is_start c) later) (Start e u d up i r c eg ex s)"
    using started by (rule run_calls_drop_starts)
  also have "\<dots> = run_calls e (start u d up i r c eg ex # filter (\<lambda>c. \<not> is_start c) later) s"
    by (simp add: run_calls_def)
  finally have drop: "run_calls e (start u d up i r c eg ex # later) s =
       run_calls e (start u d up i r c eg ex # filter (\<lambda>c. \<not> is_start c) later) s" .
  show ?thesis
    unfolding IsCrashReporterEnabled_def
    using init started drop run_calls_not_started [OF init, of before e]
      run_calls_flag [OF started, of e later] Start_initialized [of s e u d up i r c eg ex]
    by blast
qed

theorem Start_only_first_call_takes_effect_witness:
  "\<not> IsCrashReporterEnabled
       (run_calls breakpad_env [addExtraParameter ''build'' ''123'', setUploadToServer True]
          initial_state)
   \<and> IsCrashReporterEnabled
       (run_calls breakpad_env [removeExtraParameter ''build'', getUploadedReports]
          (Start breakpad_env ''https://example.test/submit'' ''/tmp/crashes'' True False True
             False [(''env'', ''prod'')] [(''build'', ''123'')] initial_state))
   \<and> Start breakpad_env ''https://other.test/'' [] False False False False [(''env'', ''dev'')] []
       (Start breakpad_env ''https://example.test/submit'' ''/tmp/crashes'' True False True
          False [(''env'', ''prod'')] [(''build'', ''123'')] initial_state) =
     Start breakpad_env ''https://example.test/submit'' ''/tmp/crashes'' True False True
          False [(''env'', ''prod'')] [(''build'', ''123'')] initial_state
   \<and> run_calls breakpad_env
       [start ''https://example.test/submit'' ''/tmp/crashes'' True False True False
          [(''env'', ''prod'')] [(''build'', ''123'')],
        addExtraParameter ''build'' ''124'',
        start ''https://other.test/'' [] False False False False [(''env'', ''dev'')] []]
       initial_state =
     run_calls breakpad_env
       [start ''https://example.test/submit'' ''/tmp/crashes'' True False True False
          [(''env'', ''prod'')] [(''build'', ''123'')],
        addExtraParameter ''build'' ''124'']
       initial_state"
proof -
  let ?first = "Start breakpad_env ''https://example.test/submit'' ''/tmp/crashes'' True False
      True False [(''env'', ''prod'')] [(''build'', ''123'')] initial_state"
  note before = Start_only_first_call_takes_effect
    [of "[addExtraParameter ''build'' ''123'', setUploadToServer True]" breakpad_env
      "''https://example.test/submit''" "''/tmp/crashes''" True False True False
      "[(''env'', ''prod'')]" "[(''build'', ''123'')]" initial_state
      "[removeExtraParameter ''build'', getUploadedReports]"]
  note again = Start_only_first_call_takes_effect
    [of "[]" breakpad_env "''https://other.test/''" "[]" False False False False
      "[(''env'', ''dev'')]" "[]" ?first "[]"]
  note dropped = Start_only_first_call_takes_effect
    [of "[]" breakpad_env
      "''https://example.test/submit''" "''/tmp/crashes''" True False True False
      "[(''env'', ''prod'')]" "[(''build'', ''123'')]" initial_state
      "[addExtraParameter ''build'' ''124'',
        start ''https://other.test/'' [] False False False False [(''env'', ''dev'')] []]"]
  from before have started: "IsCrashReporterEnabled ?first" by blast
  from before have 1: "\<not> IsCrashReporterEnabled
       (run_calls breakpad_env [addExtraParameter ''build'' ''123'', setUploadToServer True]
          initial_state)" by simp
  from before have 2: "IsCrashReporterEnabled
       (run_calls breakpad_env [removeExtraParameter ''build'', getUploadedReports] ?first)"
    by blast
  from again started have 3:
    "Start breakpad_env ''https://other.test/'' [] False False False False [(''env'', ''dev'')] []
       ?first = ?first" by blast
  from dropped have 4: "run_calls breakpad_env
       [start ''https://example.test/submit'' ''/tmp/crashes'' True False True False
          [(''env'', ''prod'')] [(''build'', ''123'')],
        addExtraParameter ''build'' ''124'',
        start ''https://other.test/'' [] False False False False [(''env'', ''dev'')] []]
       initial_state =
     run_calls breakpad_env
       [start ''https://example.test/submit'' ''/tmp/crashes'' True False True False
          [(''env'', ''prod'')] [(''build'', ''123'')],
        addExtraParameter ''build'' ''124'']
       initial_state" by simp
  from 1 2 3 4 show ?thesis by blast
qed

text \<open>
  C2. Whatever the backing store holds, \<open>GetUploadedReports\<close> has the effect of one run of
  the callback, on the objects built from the first 100 loaded uploads at most, each with a
  \<open>date\<close> and an \<open>id\<close> property; in a run of the process, one entry is added to the callback
  runs. When the store is missing or empty the callback still runs once, on the empty
  sequence. The callback takes a sequence of objects, so there is no error to pass.
\<close>

theorem GetUploadedReports_runs_callback_once:
  "let loaded = (case stored_uploads e (CreateCrashUploadList e) of
                   None \<Rightarrow> [] | Some stored \<Rightarrow> stored);
       result = map (\<lambda>upload. [(''date'', V8_Date (upload_time upload)),
                                (''id'', V8_String (upload_id upload))]) (take 100 loaded)
   in GetUploadedReports e callback w = callback result w
      \<and> callback_runs (Initialize e getUploadedReports s) = callback_runs s @ [result]
      \<and> length result \<le> 100
      \<and> (\<forall>object \<in> set result. \<exists>date id.
            object = [(''date'', V8_Date date), (''id'', V8_String id)])
      \<and> (stored_uploads e (CreateCrashUploadList e) = None
           \<or> stored_uploads e (CreateCrashUploadList e) = Some [] \<longrightarrow> result = [])"
  by (auto simp add: GetUploadedReports_def Load_def GetUploads_def Let_def)

theorem GetUploadedReports_runs_callback_once_witness:
  "GetUploadedReports crashpad_env (\<lambda>result w. result # w) [] = [[]]
   \<and> callback_runs (Initialize crashpad_env getUploadedReports initial_state) = [[]]
   \<and> GetUploadedReports breakpad_env (\<lambda>result w. result # w) [] =
       [[[(''date'', V8_Date 1600000000), (''id'', V8_String ''a1b2'')],
         [(''date'', V8_Date 1600000100), (''id'', V8_String ''c3d4'')]]]"
proof -
  have missing: "stored_uploads crashpad_env (CreateCrashUploadList crashpad_env) = None"
    by (simp add: crashpad_env_def)
  have present: "stored_uploads breakpad_env (CreateCrashUploadList breakpad_env) =
      Some example_uploads"
    by (simp add: breakpad_env_def CreateCrashUploadList_def)
  have no_runs: "callback_runs initial_state = []"
    by (simp add: initial_state_def)
  from GetUploadedReports_runs_callback_once
    [of crashpad_env "\<lambda>result w. result # w" "[]" initial_state]
  have 1: "GetUploadedReports crashpad_env (\<lambda>result w. result # w) [] = [[]]"
    and 2: "callback_runs (Initialize crashpad_env getUploadedReports initial_state) = [[]]"
    unfolding missing no_runs by (simp_all add: Let_def)
  from GetUploadedReports_runs_callback_once
    [of breakpad_env "\<lambda>result w. result # w" "[]" initial_state]
  have 3: "GetUploadedReports breakpad_env (\<lambda>result w. result # w) [] =
       [[[(''date'', V8_Date 1600000000), (''id'', V8_String ''a1b2'')],
         [(''date'', V8_Date 1600000100), (''id'', V8_String ''c3d4'')]]]"
    unfolding present by (simp add: Let_def example_uploads_def)
  from 1 2 3 show ?thesis by (intro conjI)
qed

text \<open>
  C3. On a first \<open>Start\<close> call with the structured backend not enabled, the effects are, in
  this order and with nothing else: the consent recording that precedes the branch, then
  \<open>breakpad::SetUploadURL(submit_url)\<close>, then the write of every pair of \<open>extra_global\<close>
  to the global key table, then \<open>SetCrashKey\<close> for every pair of \<open>extra\<close>, then
  \<open>SetCrashKey\<close> for every pair of \<open>extra_global\<close>, and last
  \<open>breakpad::InitCrashReporter(process_type)\<close>. Afterwards the global key table is the old
  one overwritten with every pair of \<open>extra_global\<close>, the crash keys of the backend are the
  old ones overwritten with \<open>extra\<close> and then with \<open>extra_global\<close>, so that every pair of
  \<open>extra_global\<close> is in both tables, and the rest of the state is the flag and the consent
  set and nothing else changed.
\<close>

theorem Start_legacy_steps:
  assumes "\<not> g_crash_reporter_initialized s"
    and "\<not> IsCrashpadEnabled e"
    and "std_map_ok extra_global"
    and "std_map_ok extra"
  shows "calls (Start e submit_url d up i r c extra_global extra s) =
           calls s @ [Call_SetCollectStatsConsent up, Call_SetUploadURL submit_url]
             @ map (\<lambda>pair. Write_global_crash_keys (fst pair) (snd pair)) extra_global
             @ map (\<lambda>pair. Call_SetCrashKey (fst pair) (snd pair)) extra
             @ map (\<lambda>pair. Call_SetCrashKey (fst pair) (snd pair)) extra_global
             @ [Call_InitCrashReporter (GetSwitchValueASCII e (kProcessType e))]
       \<and> GetGlobalCrashKeys (Start e submit_url d up i r c extra_global extra s) =
           GetGlobalCrashKeys s ++ map_of extra_global
       \<and> crash_keys (Start e submit_url d up i r c extra_global extra s) =
           crash_keys s ++ map_of extra ++ map_of extra_global
       \<and> (\<forall>pair \<in> set extra_global.
             GetGlobalCrashKeys (Start e submit_url d up i r c extra_global extra s) (fst pair) =
               Some (snd pair)
             \<and> crash_keys (Start e submit_url d up i r c extra_global extra s) (fst pair) =
               Some (snd pair))
       \<and> (\<forall>pair \<in> set extra. fst pair \<notin> fst ` set extra_global \<longrightarrow>
             crash_keys (Start e submit_url d up i r c extra_global extra s) (fst pair) =
               Some (snd pair))
       \<and> Start e submit_url d up i r c extra_global extra s =
           s\<lparr>g_crash_reporter_initialized := True,
             global_crash_keys := global_crash_keys s ++ map_of extra_global,
             collect_stats_consent := up,
             crash_keys := crash_keys s ++ map_of extra ++ map_of extra_global,
             calls :=
               calls s @ [Call_SetCollectStatsConsent up, Call_SetUploadURL submit_url]
                 @ map (\<lambda>pair. Write_global_crash_keys (fst pair) (snd pair)) extra_global
                 @ map (\<lambda>pair. Call_SetCrashKey (fst pair) (snd pair)) extra
                 @ map (\<lambda>pair. Call_SetCrashKey (fst pair) (snd pair)) extra_global
                 @ [Call_InitCrashReporter (GetSwitchValueASCII e (kProcessType e))]\<rparr>"
proof -
  let ?s' = "Start e submit_url d up i r c extra_global extra s"
  let ?upsert = "\<lambda>pair table. table(fst pair \<mapsto> snd pair)"
  have distinct_global: "distinct (map fst extra_global)"
    and distinct_extra: "distinct (map fst extra)"
    using assms(3,4) by (simp_all add: std_map_ok_def)
  have merged: "fold ?upsert extra_global (global_crash_keys s) =
      global_crash_keys s ++ map_of extra_global"
    using distinct_global by (rule fold_upsert)
  have "fold ?upsert extra (crash_keys s) = crash_keys s ++ map_of extra"
    using distinct_extra by (rule fold_upsert)
  moreover have "fold ?upsert extra_global (crash_keys s ++ map_of extra) =
      crash_keys s ++ map_of extra ++ map_of extra_global"
    using distinct_global by (rule fold_upsert)
  ultimately have applied: "fold ?upsert extra_global (fold ?upsert extra (crash_keys s)) =
      crash_keys s ++ map_of extra ++ map_of extra_global"
    by (simp only:)
  have state: "?s' =
      s\<lparr>g_crash_reporter_initialized := True,
        global_crash_keys := global_crash_keys s ++ map_of extra_global,
        collect_stats_consent := up,
        crash_keys := crash_keys s ++ map_of extra ++ map_of extra_global,
        calls :=
          calls s @ [Call_SetCollectStatsConsent up, Call_SetUploadURL submit_url]
            @ map (\<lambda>pair. Write_global_crash_keys (fst pair) (snd pair)) extra_global
            @ map (\<lambda>pair. Call_SetCrashKey (fst pair) (snd pair)) extra
            @ map (\<lambda>pair. Call_SetCrashKey (fst pair) (snd pair)) extra_global
            @ [Call_InitCrashReporter (GetSwitchValueASCII e (kProcessType e))]\<rparr>"
    unfolding Start_legacy_state [OF assms(1,2)] merged applied ..
  have trace: "calls ?s' =
      calls s @ [Call_SetCollectStatsConsent up, Call_SetUploadURL submit_url]
        @ map (\<lambda>pair. Write_global_crash_keys (fst pair) (snd pair)) extra_global
        @ map (\<lambda>pair. Call_SetCrashKey (fst pair) (snd pair)) extra
        @ map (\<lambda>pair. Call_SetCrashKey (fst pair) (snd pair)) extra_global
        @ [Call_InitCrashReporter (GetSwitchValueASCII e (kProcessType e))]"
    by (subst state) simp
  have global: "GetGlobalCrashKeys ?s' = GetGlobalCrashKeys s ++ map_of extra_global"
    unfolding GetGlobalCrashKeys_def by (subst state) simp
  have keys: "crash_keys ?s' = crash_keys s ++ map_of extra ++ map_of extra_global"
    by (subst state) simp
  have in_global: "map_of extra_global (fst pair) = Some (snd pair)"
    if "pair \<in> set extra_global" for pair
    using that map_of_is_SomeI [OF distinct_global, of "fst pair" "snd pair"] by simp
  have in_extra: "map_of extra (fst pair) = Some (snd pair)"
    if "pair \<in> set extra" for pair
    using that map_of_is_SomeI [OF distinct_extra, of "fst pair" "snd pair"] by simp
  have both: "GetGlobalCrashKeys ?s' (fst pair) = Some (snd pair)
      \<and> crash_keys ?s' (fst pair) = Some (snd pair)"
    if "pair \<in> set extra_global" for pair
    unfolding global keys using in_global [OF that] by (simp add: map_add_Some_iff)
  have local: "crash_keys ?s' (fst pair) = Some (snd pair)"
    if "pair \<in> set extra" and "fst pair \<notin> fst ` set extra_global" for pair
  proof -
    from that(2) have "map_of extra_global (fst pair) = None"
      by (simp add: map_of_eq_None_iff)
    with in_extra [OF that(1)] show ?thesis
      unfolding keys by (simp add: map_add_Some_iff)
  qed
  from trace global keys both local state show ?thesis by blast
qed

theorem Start_legacy_steps_witness:
  "calls (Start breakpad_env ''https://example.test/submit'' ''/tmp/crashes'' True False True
            False [(''env'', ''prod'')] [(''build'', ''123''), (''env'', ''dev'')]
            (initial_state\<lparr>global_crash_keys := [''env'' \<mapsto> ''test'']\<rparr>)) =
     [Call_SetCollectStatsConsent True, Call_SetUploadURL ''https://example.test/submit'',
      Write_global_crash_keys ''env'' ''prod'',
      Call_SetCrashKey ''build'' ''123'', Call_SetCrashKey ''env'' ''dev'',
      Call_SetCrashKey ''env'' ''prod'',
      Call_InitCrashReporter ''renderer'']
   \<and> GetGlobalCrashKeys
        (Start breakpad_env ''https://example.test/submit'' ''/tmp/crashes'' True False True
           False [(''env'', ''prod'')] [(''build'', ''123''), (''env'', ''dev'')]
           (initial_state\<lparr>global_crash_keys := [''env'' \<mapsto> ''test'']\<rparr>)) ''env'' =
       Some ''prod''
   \<and> crash_keys
        (Start breakpad_env ''https://example.test/submit'' ''/tmp/crashes'' True False True
           False [(''env'', ''prod'')] [(''build'', ''123''), (''env'', ''dev'')]
           (initial_state\<lparr>global_crash_keys := [''env'' \<mapsto> ''test'']\<rparr>)) ''env'' =
       Some ''prod''
   \<and> crash_keys
        (Start breakpad_env ''https://example.test/submit'' ''/tmp/crashes'' True False True
           False [(''env'', ''prod'')] [(''build'', ''123''), (''env'', ''dev'')]
           (initial_state\<lparr>global_crash_keys := [''env'' \<mapsto> ''test'']\<rparr>)) ''build'' =
       Some ''123''"
proof -
  let ?s = "initial_state\<lparr>global_crash_keys := [''env'' \<mapsto> ''test'']\<rparr>"
  let ?s' = "Start breakpad_env ''https://example.test/submit'' ''/tmp/crashes'' True False True
      False [(''env'', ''prod'')] [(''build'', ''123''), (''env'', ''dev'')] ?s"
  have fresh: "\<not> g_crash_reporter_initialized ?s"
    by (simp add: initial_state_def)
  have legacy: "\<not> IsCrashpadEnabled breakpad_env"
    by (simp add: breakpad_env_def)
  have global_ok: "std_map_ok [(''env'', ''prod'')]"
    by (simp add: std_map_ok_def)
  have extra_ok: "std_map_ok [(''build'', ''123''), (''env'', ''dev'')]"
    by (simp add: std_map_ok_def)
  note steps = Start_legacy_steps [OF fresh legacy global_ok extra_ok,
      of "''https://example.test/submit''" "''/tmp/crashes''" True False True False]
  have role: "GetSwitchValueASCII breakpad_env (kProcessType breakpad_env) = ''renderer''"
    by (simp add: breakpad_env_def)
  have none: "calls ?s = []"
    by (simp add: initial_state_def)
  from steps have "calls ?s' =
      calls ?s @ [Call_SetCollectStatsConsent True,
        Call_SetUploadURL ''https://example.test/submit'']
        @ map (\<lambda>pair. Write_global_crash_keys (fst pair) (snd pair)) [(''env'', ''prod'')]
        @ map (\<lambda>pair. Call_SetCrashKey (fst pair) (snd pair))
            [(''build'', ''123''), (''env'', ''dev'')]
        @ map (\<lambda>pair. Call_SetCrashKey (fst pair) (snd pair)) [(''env'', ''prod'')]
        @ [Call_InitCrashReporter
             (GetSwitchValueASCII breakpad_env (kProcessType breakpad_env))]"
    by (rule conjunct1)
  then have 1: "calls ?s' =
     [Call_SetCollectStatsConsent True, Call_SetUploadURL ''https://example.test/submit'',
      Write_global_crash_keys ''env'' ''prod'',
      Call_SetCrashKey ''build'' ''123'', Call_SetCrashKey ''env'' ''dev'',
      Call_SetCrashKey ''env'' ''prod'',
      Call_InitCrashReporter ''renderer'']"
    unfolding role none by simp
  from steps have "GetGlobalCrashKeys ?s' = GetGlobalCrashKeys ?s ++ map_of [(''env'', ''prod'')]"
    by blast
  then have 2: "GetGlobalCrashKeys ?s' ''env'' = Some ''prod''"
    by simp
  from steps have "crash_keys ?s' =
      crash_keys ?s ++ map_of [(''build'', ''123''), (''env'', ''dev'')]
        ++ map_of [(''env'', ''prod'')]"
    by blast
  then have 3: "crash_keys ?s' ''env'' = Some ''prod''"
    and 4: "crash_keys ?s' ''build'' = Some ''123''"
    by simp_all
  from 1 2 3 4 show ?thesis by (intro conjI)
qed

text \<open>
  C4. On a first \<open>Start\<close> call the first effect is the recording of \<open>upload_to_server\<close>
  into the consent store, and the steps of the chosen backend path follow it, on either path.
  \<open>GetUploadToServer\<close> then returns that value, and keeps returning it after any calls that
  are not \<open>setUploadToServer\<close> (later \<open>start\<close> calls included); a \<open>setUploadToServer\<close> call
  replaces it.
\<close>

theorem Start_records_consent_first:
  assumes "\<not> g_crash_reporter_initialized s"
    and "list_all (\<lambda>c. \<not> is_setUploadToServer c) later"
  shows "calls (Start e u d up i r c eg ex s) =
           calls s @ Call_SetCollectStatsConsent up #
             (if IsCrashpadEnabled e
              then [Call_InitializeCrashpad (GetSwitchValueASCII e (kProcessType e) = [])
                      (GetSwitchValueASCII e (kProcessType e))]
              else Call_SetUploadURL u
                   # map (\<lambda>pair. Write_global_crash_keys (fst pair) (snd pair)) eg
                   @ map (\<lambda>pair. Call_SetCrashKey (fst pair) (snd pair)) ex
                   @ map (\<lambda>pair. Call_SetCrashKey (fst pair) (snd pair)) eg
                   @ [Call_InitCrashReporter (GetSwitchValueASCII e (kProcessType e))])
       \<and> GetUploadToServer (Start e u d up i r c eg ex s) = up
       \<and> GetUploadToServer (run_calls e later (Start e u d up i r c eg ex s)) = up
       \<and> GetUploadToServer
            (run_calls e (later @ [setUploadToServer upload]) (Start e u d up i r c eg ex s)) =
           upload"
proof -
  let ?s' = "Start e u d up i r c eg ex s"
  have started: "g_crash_reporter_initialized ?s'" by (rule Start_flag)
  have now: "collect_stats_consent ?s' = up" using assms(1) by (rule Start_consent)
  have kept: "collect_stats_consent (run_calls e later ?s') = collect_stats_consent ?s'"
    using started assms(2) by (rule run_calls_consent)
  have "run_calls e (later @ [setUploadToServer upload]) ?s' =
        SetUploadToServer upload (run_calls e later ?s')"
    by (simp add: run_calls_def)
  then have next_set:
    "collect_stats_consent (run_calls e (later @ [setUploadToServer upload]) ?s') = upload"
    by (simp add: SetUploadToServer_def SetCollectStatsConsent_def record_call_def)
  from now kept next_set Start_calls [OF assms(1)] show ?thesis
    by (simp add: GetUploadToServer_def GetCollectStatsConsent_def)
qed

theorem Start_records_consent_first_witness:
  "GetUploadToServer
     (Start crashpad_env ''https://example.test/submit'' [] True False False False [] []
        initial_state)
   \<and> GetUploadToServer
       (run_calls breakpad_env [addExtraParameter ''build'' ''124'', getUploadedReports,
            start [] [] False False False False [] []]
          (Start breakpad_env ''https://example.test/submit'' [] True False False False [] []
             initial_state))
   \<and> \<not> GetUploadToServer
       (run_calls breakpad_env [addExtraParameter ''build'' ''124'', setUploadToServer False]
          (Start breakpad_env ''https://example.test/submit'' [] True False False False [] []
             initial_state))
   \<and> calls (Start crashpad_env ''https://example.test/submit'' [] True False False False [] []
        initial_state) = [Call_SetCollectStatsConsent True, Call_InitializeCrashpad True []]"
  using Start_records_consent_first [of initial_state "[]" crashpad_env
      "''https://example.test/submit''" "[]" True False False False "[]" "[]"]
    Start_records_consent_first [of initial_state
      "[addExtraParameter ''build'' ''124'', getUploadedReports,
        start [] [] False False False False [] []]" breakpad_env
      "''https://example.test/submit''" "[]" True False False False "[]" "[]"]
    Start_records_consent_first [of initial_state
      "[addExtraParameter ''build'' ''124'']" breakpad_env
      "''https://example.test/submit''" "[]" True False False False "[]" "[]" False]
  by (simp add: initial_state_def crashpad_env_def)

text \<open>
  C5. On a first \<open>Start\<close> call with the structured backend enabled, the state changes in the
  flag, the consent and the two calls made (the consent recording and \<open>InitializeCrashpad\<close>)
  and in nothing else: the global key table and the crash keys are as before, and the
  result does not depend on \<open>submit_url\<close>, \<open>extra_global\<close> or \<open>extra\<close>.
\<close>

theorem Start_crashpad_frame:
  assumes "\<not> g_crash_reporter_initialized s"
    and "IsCrashpadEnabled e"
  shows "Start e submit_url d up i r c extra_global extra s =
           s\<lparr>g_crash_reporter_initialized := True, collect_stats_consent := up,
             calls := calls s @
               [Call_SetCollectStatsConsent up,
                Call_InitializeCrashpad (GetSwitchValueASCII e (kProcessType e) = [])
                  (GetSwitchValueASCII e (kProcessType e))]\<rparr>
       \<and> GetGlobalCrashKeys (Start e submit_url d up i r c extra_global extra s) =
           GetGlobalCrashKeys s
       \<and> crash_keys (Start e submit_url d up i r c extra_global extra s) = crash_keys s
       \<and> Start e submit_url d up i r c extra_global extra s =
           Start e submit_url' d' up i' r' c' extra_global' extra' s"
  using assms
  by (simp add: Start_def Let_def SetUploadToServer_def SetCollectStatsConsent_def
      record_call_def InitializeCrashpad_def GetGlobalCrashKeys_def)

theorem Start_crashpad_frame_witness:
  "GetGlobalCrashKeys
     (Start crashpad_env ''https://example.test/submit'' ''/tmp/crashes'' True False True False
        [(''env'', ''prod'')] [(''build'', ''123'')] initial_state) = Map.empty
   \<and> crash_keys
     (Start crashpad_env ''https://example.test/submit'' ''/tmp/crashes'' True False True False
        [(''env'', ''prod'')] [(''build'', ''123'')] initial_state) = Map.empty
   \<and> Start crashpad_env ''https://example.test/submit'' ''/tmp/crashes'' True False True False
        [(''env'', ''prod'')] [(''build'', ''123'')] initial_state =
       Start crashpad_env [] [] True False False False [] [] initial_state"
proof -
  have fresh: "\<not> g_crash_reporter_initialized initial_state"
    by (simp add: initial_state_def)
  have enabled: "IsCrashpadEnabled crashpad_env"
    by (simp add: crashpad_env_def)
  note frame = Start_crashpad_frame [OF fresh enabled, of "''https://example.test/submit''"
      "''/tmp/crashes''" True False True False "[(''env'', ''prod'')]" "[(''build'', ''123'')]"
      "[]" "[]" False False False "[]" "[]"]
  have no_global: "GetGlobalCrashKeys initial_state = Map.empty"
    by (simp add: GetGlobalCrashKeys_def initial_state_def)
  have no_keys: "crash_keys initial_state = Map.empty"
    by (simp add: initial_state_def)
  from frame [THEN conjunct2] show ?thesis
    unfolding no_global no_keys .
qed

text \<open>
  C6. \<open>CreateCrashUploadList\<close> constructs the Crashpad reader on macOS and on Windows,
  whatever the backend; elsewhere it constructs the Crashpad reader when Crashpad is
  enabled, and otherwise a text-log reader on the path-service directory for
  \<open>DIR_CRASH_DUMPS\<close> with \<open>kReporterLogFilename\<close> appended (on the empty path when the
  lookup fails).
\<close>

theorem CreateCrashUploadList_by_platform:
  "(target e = OS_MACOSX \<or> target e = OS_WIN \<longrightarrow>
      CreateCrashUploadList e = CrashUploadListCrashpad)
   \<and> (target e \<noteq> OS_MACOSX \<and> target e \<noteq> OS_WIN \<and> IsCrashpadEnabled e \<longrightarrow>
      CreateCrashUploadList e = CrashUploadListCrashpad)
   \<and> (target e \<noteq> OS_MACOSX \<and> target e \<noteq> OS_WIN \<and> \<not> IsCrashpadEnabled e
        \<and> PathService_Get_DIR_CRASH_DUMPS e = Some crash_dir_path \<longrightarrow>
      CreateCrashUploadList e =
        TextLogUploadList (AppendASCII e crash_dir_path (kReporterLogFilename e)))
   \<and> (target e \<noteq> OS_MACOSX \<and> target e \<noteq> OS_WIN \<and> \<not> IsCrashpadEnabled e
        \<and> PathService_Get_DIR_CRASH_DUMPS e = None \<longrightarrow>
      CreateCrashUploadList e = TextLogUploadList (AppendASCII e [] (kReporterLogFilename e)))"
  by (simp add: CreateCrashUploadList_def)

theorem CreateCrashUploadList_by_platform_witness:
  "CreateCrashUploadList (breakpad_env\<lparr>target := OS_MACOSX\<rparr>) = CrashUploadListCrashpad
   \<and> CreateCrashUploadList (breakpad_env\<lparr>target := OS_WIN\<rparr>) = CrashUploadListCrashpad
   \<and> CreateCrashUploadList crashpad_env = CrashUploadListCrashpad
   \<and> CreateCrashUploadList breakpad_env = TextLogUploadList ''/tmp/crashes/uploads.log''
   \<and> CreateCrashUploadList (breakpad_env\<lparr>PathService_Get_DIR_CRASH_DUMPS := None\<rparr>) =
       TextLogUploadList ''/uploads.log''"
  using CreateCrashUploadList_by_platform [of "breakpad_env\<lparr>target := OS_MACOSX\<rparr>"]
    CreateCrashUploadList_by_platform [of "breakpad_env\<lparr>target := OS_WIN\<rparr>"]
    CreateCrashUploadList_by_platform [of crashpad_env]
    CreateCrashUploadList_by_platform [of breakpad_env "''/tmp/crashes''"]
    CreateCrashUploadList_by_platform [of "breakpad_env\<lparr>PathService_Get_DIR_CRASH_DUMPS := None\<rparr>"]
  by (simp add: breakpad_env_def crashpad_env_def)

text \<open>
  C7. \<open>addExtraParameter\<close> is bound to \<open>SetCrashKey\<close>. After adding \<open>v1\<close> and then \<open>v2\<close> under
  one key, the key table maps the key to \<open>v2\<close> and is the table a single addition of \<open>v2\<close>
  gives; adding the same pair twice gives the table that adding it once gives.
\<close>

theorem addExtraParameter_upsert:
  "crash_keys (run_calls e [addExtraParameter k v1, addExtraParameter k v2] s) k = Some v2
   \<and> crash_keys (run_calls e [addExtraParameter k v1, addExtraParameter k v2] s) =
       (crash_keys s)(k \<mapsto> v2)
   \<and> crash_keys (run_calls e [addExtraParameter k v1, addExtraParameter k v2] s) =
       crash_keys (run_calls e [addExtraParameter k v2] s)
   \<and> crash_keys (run_calls e [addExtraParameter k v, addExtraParameter k v] s) =
       crash_keys (run_calls e [addExtraParameter k v] s)"
  by (simp add: run_calls_def SetCrashKey_def record_call_def)

text \<open>
  C8. \<open>removeExtraParameter\<close> is bound to \<open>ClearCrashKey\<close>, which returns a state and has no
  error result. On an absent key the key table stays as it is; in every case the keys
  afterwards are the keys before without the removed one, every other key keeps its value,
  and the flag, the global table and the consent are untouched.
\<close>

theorem removeExtraParameter_absent_is_noop:
  "(crash_keys s k = None \<longrightarrow>
      crash_keys (Initialize e (removeExtraParameter k) s) = crash_keys s)
   \<and> dom (crash_keys (Initialize e (removeExtraParameter k) s)) = dom (crash_keys s) - {k}
   \<and> (\<forall>j. j \<noteq> k \<longrightarrow>
        crash_keys (Initialize e (removeExtraParameter k) s) j = crash_keys s j)
   \<and> g_crash_reporter_initialized (Initialize e (removeExtraParameter k) s) =
       g_crash_reporter_initialized s
   \<and> global_crash_keys (Initialize e (removeExtraParameter k) s) = global_crash_keys s
   \<and> collect_stats_consent (Initialize e (removeExtraParameter k) s) = collect_stats_consent s"
  by (auto simp add: ClearCrashKey_def record_call_def)

theorem removeExtraParameter_absent_is_noop_witness:
  "crash_keys (Initialize breakpad_env (removeExtraParameter ''env'')
      (Initialize breakpad_env (addExtraParameter ''build'' ''123'') initial_state)) =
     crash_keys (Initialize breakpad_env (addExtraParameter ''build'' ''123'') initial_state)
   \<and> crash_keys (Initialize breakpad_env (removeExtraParameter ''env'')
      (Initialize breakpad_env (addExtraParameter ''build'' ''123'') initial_state)) ''build'' =
     Some ''123''
   \<and> crash_keys (Initialize breakpad_env (removeExtraParameter ''build'')
      (Initialize breakpad_env (addExtraParameter ''build'' ''123'') initial_state)) ''build'' =
     None"
proof -
  let ?s = "Initialize breakpad_env (addExtraParameter ''build'' ''123'') initial_state"
  have absent: "crash_keys ?s ''env'' = None"
    by (simp add: SetCrashKey_def record_call_def initial_state_def)
  have other: "''build'' \<noteq> ''env''" by simp
  have present: "crash_keys ?s ''build'' = Some ''123''"
    by (simp add: SetCrashKey_def record_call_def initial_state_def)
  note absent_case = removeExtraParameter_absent_is_noop [of ?s "''env''" breakpad_env]
  note present_case = removeExtraParameter_absent_is_noop [of ?s "''build''" breakpad_env]
  from absent_case absent
  have 1: "crash_keys (Initialize breakpad_env (removeExtraParameter ''env'') ?s) = crash_keys ?s"
    by blast
  from 1 present
  have 2: "crash_keys (Initialize breakpad_env (removeExtraParameter ''env'') ?s) ''build'' =
      Some ''123''"
    by simp
  from present_case
  have "''build'' \<notin> dom (crash_keys (Initialize breakpad_env (removeExtraParameter ''build'') ?s))"
    by blast
  then have 3: "crash_keys (Initialize breakpad_env (removeExtraParameter ''build'') ?s) ''build'' =
      None"
    by blast
  from 1 2 3 show ?thesis by blast
qed

text \<open>
  C9. Two \<open>Start\<close> calls whose arguments differ only in \<open>crashes_directory\<close>,
  \<open>ignore_system_crash_handler\<close>, \<open>rate_limit\<close> or \<open>compress\<close> leave the process in the same
  state, from every state and on both backend paths: \<open>Start\<close> never reads the four.
\<close>

theorem Start_ignores_unused_arguments:
  "Start e submit_url crashes_directory upload_to_server ignore_system_crash_handler
     rate_limit compress extra_global extra s =
   Start e submit_url crashes_directory' upload_to_server ignore_system_crash_handler'
     rate_limit' compress' extra_global extra s"
  by (simp add: Start_def)

text \<open>
  C10. On a first \<open>Start\<close> call with the structured backend enabled, exactly one
  \<open>InitializeCrashpad\<close> call is added; its second argument is the value of the process-type
  switch as read from the command line, and its first argument is true exactly when that
  value is empty.
\<close>

theorem Start_crashpad_initializer_arguments:
  assumes "\<not> g_crash_reporter_initialized s"
    and "IsCrashpadEnabled e"
  shows "InitializeCrashpad_arguments (calls (Start e u d up i r c eg ex s)) =
           InitializeCrashpad_arguments (calls s) @
             [(GetSwitchValueASCII e (kProcessType e) = [], GetSwitchValueASCII e (kProcessType e))]"
  using assms by (simp add: Start_calls InitializeCrashpad_arguments_append)

theorem Start_crashpad_initializer_arguments_witness:
  "InitializeCrashpad_arguments
     (calls (Start crashpad_env [] [] True False False False [] [] initial_state)) =
     [(True, [])]
   \<and> InitializeCrashpad_arguments
     (calls (Start (crashpad_env\<lparr>GetSwitchValueASCII := (\<lambda>switch. ''renderer'')\<rparr>) [] [] True
        False False False [] [] initial_state)) =
     [(False, ''renderer'')]"
  using Start_crashpad_initializer_arguments [of initial_state crashpad_env]
    Start_crashpad_initializer_arguments [of initial_state
      "crashpad_env\<lparr>GetSwitchValueASCII := (\<lambda>switch. ''renderer'')\<rparr>"]
  by (simp add: initial_state_def crashpad_env_def)

end
